theory Spec2Isabelle
  imports Complex_Main
begin

section \<open>Black-Scholes-Merton pricing and the sensitivity sweep\<close>

text \<open>
  The development embeds \<^verbatim>\<open>bsm_model.py\<close> (class \<^verbatim>\<open>BlackScholes\<close>), the controller
  method \<^verbatim>\<open>OptionAnalyticsApp.run_analysis\<close> of \<^verbatim>\<open>app.py\<close> and the validation step
  \<^verbatim>\<open>OptionAnalyticsUI.get_analysis_inputs\<close> of \<^verbatim>\<open>gui_view.py\<close>.

  Modelling conventions.
  \<^item> A Python \<^verbatim>\<open>float\<close> is a real number: rounding, overflow, underflow and NaN are
    not represented. Comparisons, \<^verbatim>\<open>max\<close>, and the arithmetic operators are the
    exact ones.
  \<^item> \<^verbatim>\<open>np.log\<close>, \<^verbatim>\<open>np.sqrt\<close> and \<^verbatim>\<open>np.exp\<close> are \<open>ln\<close>, \<open>sqrt\<close> and \<open>exp\<close>. On a
    non-positive argument \<^verbatim>\<open>np.log\<close> gives NaN or minus infinity, which a real
    number cannot express; statements about the general pricing branch therefore
    assume a positive spot and strike.
  \<^item> A Python float division by zero raises \<^verbatim>\<open>ZeroDivisionError\<close>; the one place
    where the code divides two Python floats by an unguarded divisor
    (\<^verbatim>\<open>self.S / self.K\<close>) is a branch of the model.
  \<^item> \<^verbatim>\<open>scipy.stats.norm\<close> is a library outside the repository; \<^verbatim>\<open>norm.pdf\<close> and
    \<^verbatim>\<open>norm.cdf\<close> are the density and the distribution function of the standard
    normal law.
\<close>

subsection \<open>The standard normal law\<close>

definition norm_pdf :: "real \<Rightarrow> real" where
  "norm_pdf x = exp (- (x\<^sup>2) / 2) / sqrt (2 * pi)"

text \<open>
  The distribution function is given by the power series of
  \<open>1/2 + (1 / sqrt (2 pi)) * integral from 0 to x of exp (- t^2 / 2)\<close>, which converges
  for every \<open>x\<close>.
\<close>

definition cdf_term :: "real \<Rightarrow> nat \<Rightarrow> real" where
  "cdf_term x k = (- 1) ^ k * x ^ (2 * k + 1) / (2 ^ k * fact k * real (2 * k + 1))"

definition norm_cdf :: "real \<Rightarrow> real" where
  "norm_cdf x = 1 / 2 + (\<Sum>k. cdf_term x k) / sqrt (2 * pi)"

text \<open>The coefficients of the series, as a power series in \<open>x\<^sup>2\<close>.\<close>

definition cdf_coeff :: "nat \<Rightarrow> real" where
  "cdf_coeff k = (- 1) ^ k / (2 ^ k * fact k * real (2 * k + 1))"

subsection \<open>The model class\<close>

datatype error = ZeroDivisionError | InvalidRangeError | ConfigurationError

text \<open>The attributes \<^verbatim>\<open>self.S\<close>, \<^verbatim>\<open>self.K\<close>, \<^verbatim>\<open>self.T\<close>, \<^verbatim>\<open>self.r\<close>, \<^verbatim>\<open>self.sigma\<close>, \<^verbatim>\<open>self.q\<close>.\<close>

record BlackScholes =
  self_S :: real
  self_K :: real
  self_T :: real
  self_r :: real
  self_sigma :: real
  self_q :: real

text \<open>\<^verbatim>\<open>BlackScholes.__init__(S, K, T_days, r_pct, sigma_pct, q_pct)\<close>.\<close>

definition BlackScholes_init :: "real \<Rightarrow> real \<Rightarrow> real \<Rightarrow> real \<Rightarrow> real \<Rightarrow> real \<Rightarrow> BlackScholes" where
  "BlackScholes_init S K T_days r_pct sigma_pct q_pct =
     \<lparr>self_S = S, self_K = K, self_T = T_days / 365, self_r = r_pct / 100,
      self_sigma = sigma_pct / 100, self_q = q_pct / 100\<rparr>"

text \<open>The dictionary that \<^verbatim>\<open>calculate_all\<close> returns: ten fixed keys.\<close>

record results =
  call_price :: real
  put_price :: real
  call_delta :: real
  put_delta :: real
  gamma :: real
  vega :: real
  call_theta :: real
  put_theta :: real
  call_rho :: real
  put_rho :: real

definition results0 :: results where
  "results0 = \<lparr>call_price = 0, put_price = 0, call_delta = 0, put_delta = 0,
     gamma = 0, vega = 0, call_theta = 0, put_theta = 0, call_rho = 0, put_rho = 0\<rparr>"

text \<open>
  \<^verbatim>\<open>_d1_d2\<close>: the pair \<^verbatim>\<open>(None, None)\<close> is \<open>None\<close>. The quotient \<^verbatim>\<open>self.S / self.K\<close> of two
  Python floats raises when the strike is zero.
\<close>

definition d1_d2 :: "BlackScholes \<Rightarrow> error + (real \<times> real) option" where
  "d1_d2 self =
     (if self_T self \<le> 0.000000001 \<or> self_sigma self \<le> 0.000000001 then Inr None
      else if self_K self = 0 then Inl ZeroDivisionError
      else
        let d1 = (ln (self_S self / self_K self)
                  + (self_r self - self_q self + 0.5 * (self_sigma self)\<^sup>2) * self_T self)
                 / (self_sigma self * sqrt (self_T self));
            d2 = d1 - self_sigma self * sqrt (self_T self)
        in Inr (Some (d1, d2)))"

text \<open>The part of \<^verbatim>\<open>calculate_all\<close> after the two early returns.\<close>

definition general_case :: "BlackScholes \<Rightarrow> real \<Rightarrow> real \<Rightarrow> results" where
  "general_case self d1 d2 =
     (let sqrt_T = sqrt (self_T self);
          exp_mqT = exp (- self_q self * self_T self);
          exp_mrT = exp (- self_r self * self_T self);
          N_d1 = norm_cdf d1;
          N_d2 = norm_cdf d2;
          N_neg_d1 = norm_cdf (- d1);
          N_neg_d2 = norm_cdf (- d2);
          n_d1 = norm_pdf d1;
          raw_vega = self_S self * exp_mqT * sqrt_T * n_d1;
          term1 = - (self_S self * exp_mqT * n_d1 * self_sigma self) / (2 * sqrt_T);
          call_theta_yr = term1 - self_r self * self_K self * exp_mrT * N_d2
                          + self_q self * self_S self * exp_mqT * N_d1;
          put_theta_yr = term1 + self_r self * self_K self * exp_mrT * N_neg_d2
                         - self_q self * self_S self * exp_mqT * N_neg_d1;
          raw_call_rho = self_K self * self_T self * exp_mrT * N_d2;
          raw_put_rho = - self_K self * self_T self * exp_mrT * N_neg_d2
      in \<lparr>call_price = self_S self * exp_mqT * N_d1 - self_K self * exp_mrT * N_d2,
          put_price = self_K self * exp_mrT * N_neg_d2 - self_S self * exp_mqT * N_neg_d1,
          call_delta = exp_mqT * N_d1,
          put_delta = exp_mqT * (N_d1 - 1),
          gamma = (exp_mqT * n_d1) / (self_S self * self_sigma self * sqrt_T),
          vega = raw_vega / 100,
          call_theta = call_theta_yr / 365,
          put_theta = put_theta_yr / 365,
          call_rho = raw_call_rho / 100,
          put_rho = raw_put_rho / 100\<rparr>)"

definition calculate_all :: "BlackScholes \<Rightarrow> error + results" where
  "calculate_all self =
     (if self_T self \<le> 0.000000001 then
        let res = results0\<lparr>call_price := max 0 (self_S self - self_K self),
                           put_price := max 0 (self_K self - self_S self)\<rparr>
        in if self_S self > self_K self then Inr (res\<lparr>call_delta := 1, put_delta := 0\<rparr>)
           else if self_S self < self_K self then Inr (res\<lparr>call_delta := 0, put_delta := - 1\<rparr>)
           else Inr res
      else
        case d1_d2 self of
          Inl e \<Rightarrow> Inl e
        | Inr None \<Rightarrow>
            Inr (results0\<lparr>call_price := max 0 (self_S self - self_K self),
                          put_price := max 0 (self_K self - self_S self)\<rparr>)
        | Inr (Some (d1, d2)) \<Rightarrow> Inr (general_case self d1 d2))"

text \<open>
  The dictionary of raw inputs read from the six entry fields (keys \<^verbatim>\<open>S\<close>, \<^verbatim>\<open>sigma\<close>,
  \<^verbatim>\<open>r\<close>, \<^verbatim>\<open>q\<close>, \<^verbatim>\<open>K\<close>, \<^verbatim>\<open>T\<close>), and one pricing evaluation as both
  \<^verbatim>\<open>run_dashboard_calc\<close> and the sweep loop perform it: construct the model from the
  dictionary, then call \<^verbatim>\<open>calculate_all\<close>.
\<close>

record inputs =
  inp_S :: real
  inp_sigma :: real
  inp_r :: real
  inp_q :: real
  inp_K :: real
  inp_T :: real

definition evaluate :: "inputs \<Rightarrow> error + results" where
  "evaluate inp =
     calculate_all (BlackScholes_init (inp_S inp) (inp_K inp) (inp_T inp)
                      (inp_r inp) (inp_sigma inp) (inp_q inp))"

text \<open>
  The arguments on which \<^verbatim>\<open>calculate_all\<close> evaluates \<^verbatim>\<open>np.log\<close> and \<^verbatim>\<open>np.sqrt\<close>, in
  the order of evaluation: none on the two early returns (and none when the
  division raises, which happens before the logarithm is taken); otherwise
  \<^verbatim>\<open>np.log(self.S / self.K)\<close> and two \<^verbatim>\<open>np.sqrt(self.T)\<close> in \<^verbatim>\<open>_d1_d2\<close>, then
  \<^verbatim>\<open>np.sqrt(self.T)\<close> for \<^verbatim>\<open>sqrt_T\<close>.
\<close>

definition log_sqrt_args :: "BlackScholes \<Rightarrow> real list" where
  "log_sqrt_args self =
     (if self_T self \<le> 0.000000001 then []
      else if self_T self \<le> 0.000000001 \<or> self_sigma self \<le> 0.000000001 then []
      else if self_K self = 0 then []
      else [self_S self / self_K self, self_T self, self_T self, self_T self])"

subsection \<open>The sweep\<close>

text \<open>The two label dictionaries of the controller, read with \<^verbatim>\<open>dict.get\<close>.\<close>

definition var_map :: "string \<Rightarrow> string option" where
  "var_map label =
     (if label = ''Spot Price'' then Some ''S''
      else if label = ''Volatility'' then Some ''sigma''
      else if label = ''Time (Days)'' then Some ''T''
      else if label = ''Risk-Free Rate'' then Some ''r''
      else None)"

definition metric_map :: "string \<Rightarrow> string option" where
  "metric_map label =
     (if label = ''Call Price'' then Some ''call_price''
      else if label = ''Put Price'' then Some ''put_price''
      else if label = ''Call Delta'' then Some ''call_delta''
      else if label = ''Put Delta'' then Some ''put_delta''
      else if label = ''Gamma'' then Some ''gamma''
      else if label = ''Vega'' then Some ''vega''
      else if label = ''Theta'' then Some ''call_theta''
      else if label = ''Rho'' then Some ''call_rho''
      else None)"

text \<open>\<^verbatim>\<open>res.get(key, default)\<close> on the result dictionary; the key may be \<^verbatim>\<open>None\<close>.\<close>

definition res_get :: "results \<Rightarrow> string option \<Rightarrow> real \<Rightarrow> real" where
  "res_get res key dflt =
     (if key = Some ''call_price'' then call_price res
      else if key = Some ''put_price'' then put_price res
      else if key = Some ''call_delta'' then call_delta res
      else if key = Some ''put_delta'' then put_delta res
      else if key = Some ''gamma'' then gamma res
      else if key = Some ''vega'' then vega res
      else if key = Some ''call_theta'' then call_theta res
      else if key = Some ''put_theta'' then put_theta res
      else if key = Some ''call_rho'' then call_rho res
      else if key = Some ''put_rho'' then put_rho res
      else dflt)"

text \<open>
  \<^verbatim>\<open>current_inputs[key] = value\<close>. A key other than the six entry keys (such as
  \<^verbatim>\<open>None\<close>, for a label missing from \<^verbatim>\<open>var_map\<close>) adds an entry that is never read.
\<close>

definition set_item :: "inputs \<Rightarrow> string option \<Rightarrow> real \<Rightarrow> inputs" where
  "set_item inp key v =
     (if key = Some ''S'' then inp\<lparr>inp_S := v\<rparr>
      else if key = Some ''sigma'' then inp\<lparr>inp_sigma := v\<rparr>
      else if key = Some ''r'' then inp\<lparr>inp_r := v\<rparr>
      else if key = Some ''q'' then inp\<lparr>inp_q := v\<rparr>
      else if key = Some ''K'' then inp\<lparr>inp_K := v\<rparr>
      else if key = Some ''T'' then inp\<lparr>inp_T := v\<rparr>
      else inp)"

text \<open>The graph settings collected by \<^verbatim>\<open>get_analysis_inputs\<close>.\<close>

record params =
  y_var :: string
  x_var :: string
  x_start :: real
  x_end :: real
  x_steps :: int
  z_var :: string
  z_start :: real
  z_inc :: real

text \<open>
  \<^verbatim>\<open>get_analysis_inputs\<close> on entries that already hold numbers: the remaining check
  raises \<^verbatim>\<open>ValueError("Steps must be > 1")\<close>, which the method reports in an
  "Input Error" dialog and turns into the return value \<^verbatim>\<open>None\<close>. This outcome is
  \<open>InvalidRangeError\<close>.
\<close>

definition get_analysis_inputs :: "inputs \<Rightarrow> params \<Rightarrow> error + (inputs \<times> params)" where
  "get_analysis_inputs base_inputs p =
     (if x_steps p \<le> 1 then Inl InvalidRangeError else Inr (base_inputs, p))"

text \<open>
  \<^verbatim>\<open>np.linspace(start, stop, num)\<close> for a count \<open>num\<close>: the points
  \<open>i * step + start\<close> with \<open>step = (stop - start) / (num - 1)\<close>, the last of which is then
  overwritten by \<open>stop\<close> when \<open>num > 1\<close>.
\<close>

definition linspace :: "real \<Rightarrow> real \<Rightarrow> nat \<Rightarrow> real list" where
  "linspace start stop num =
     (let step = (stop - start) / real (num - 1);
          y = map (\<lambda>i. real i * step + start) [0..<num]
      in if num > 1 then y[num - 1 := stop] else y)"

text \<open>
  The inner loop of the simulation: one pricing evaluation per \<^verbatim>\<open>x_val\<close>, appended to
  \<^verbatim>\<open>row_results\<close>. The natural number counts the calls of \<^verbatim>\<open>calculate_all\<close> made so
  far; an exception leaves the loop at once.
\<close>

fun row_loop ::
  "inputs \<Rightarrow> string option \<Rightarrow> string option \<Rightarrow> string option \<Rightarrow> real \<Rightarrow> real list
     \<Rightarrow> real list \<Rightarrow> nat \<Rightarrow> (error + real list) \<times> nat" where
  "row_loop base_inputs x_var_name z_var_name y_metric_key z_val [] row_results n =
     (Inr row_results, n)"
| "row_loop base_inputs x_var_name z_var_name y_metric_key z_val (x_val # x_values) row_results n =
     (let current_inputs = set_item (set_item base_inputs x_var_name x_val) z_var_name z_val
      in case evaluate current_inputs of
           Inl e \<Rightarrow> (Inl e, n + 1)
         | Inr res \<Rightarrow>
             row_loop base_inputs x_var_name z_var_name y_metric_key z_val x_values
               (row_results @ [res_get res y_metric_key 0]) (n + 1))"

text \<open>The outer loop: one row per \<^verbatim>\<open>z_val\<close>, appended to \<^verbatim>\<open>y_matrix\<close>.\<close>

fun simulation_loop ::
  "inputs \<Rightarrow> string option \<Rightarrow> string option \<Rightarrow> string option \<Rightarrow> real list \<Rightarrow> real list
     \<Rightarrow> real list list \<Rightarrow> nat \<Rightarrow> (error + real list list) \<times> nat" where
  "simulation_loop base_inputs x_var_name z_var_name y_metric_key x_values [] y_matrix n =
     (Inr y_matrix, n)"
| "simulation_loop base_inputs x_var_name z_var_name y_metric_key x_values (z_val # z_values) y_matrix n =
     (case row_loop base_inputs x_var_name z_var_name y_metric_key z_val x_values [] n of
        (Inl e, n') \<Rightarrow> (Inl e, n')
      | (Inr row_results, n') \<Rightarrow>
          simulation_loop base_inputs x_var_name z_var_name y_metric_key x_values z_values
            (y_matrix @ [row_results]) n')"

text \<open>
  \<^verbatim>\<open>run_analysis\<close>. The result is what the method hands to \<^verbatim>\<open>plot_data\<close>
  (\<^verbatim>\<open>x_values\<close>, \<^verbatim>\<open>z_values\<close>, \<^verbatim>\<open>y_matrix\<close>) or the reason why nothing is plotted,
  paired with the number of pricing evaluations performed. The warning dialog
  "Configuration Error" is \<open>ConfigurationError\<close>.
\<close>

definition run_analysis :: "inputs \<Rightarrow> params \<Rightarrow> (error + real list \<times> real list \<times> real list list) \<times> nat" where
  "run_analysis entries settings =
     (case get_analysis_inputs entries settings of
        Inl e \<Rightarrow> (Inl e, 0)
      | Inr (base_inputs, params) \<Rightarrow>
          let x_var_name = var_map (x_var params);
              z_var_name = var_map (z_var params);
              y_metric_key = metric_map (y_var params)
          in if x_var_name = z_var_name then (Inl ConfigurationError, 0)
             else
               let x_values = linspace (x_start params) (x_end params) (nat (x_steps params));
                   z_values = map (\<lambda>i. z_start params + real i * z_inc params) [0..<5]
               in (case simulation_loop base_inputs x_var_name z_var_name y_metric_key
                          x_values z_values [] 0 of
                     (Inl e, n) \<Rightarrow> (Inl e, n)
                   | (Inr y_matrix, n) \<Rightarrow> (Inr (x_values, z_values, y_matrix), n)))"




subsection \<open>The closed forms of the specification\<close>

text \<open>
  The Black-Scholes-Merton formulas as the specification writes them, in the
  canonical units \<open>T = days / 365\<close>, \<open>r = rate_pct / 100\<close>, \<open>sigma = vol_pct / 100\<close>,
  \<open>q = div_pct / 100\<close>, with \<open>N = norm_cdf\<close> and \<open>n = norm_pdf\<close>.
\<close>

definition spec_d1 :: "real \<Rightarrow> real \<Rightarrow> real \<Rightarrow> real \<Rightarrow> real \<Rightarrow> real \<Rightarrow> real" where
  "spec_d1 S K T r sigma q = (ln (S / K) + (r - q + 0.5 * sigma\<^sup>2) * T) / (sigma * sqrt T)"

definition spec_d2 :: "real \<Rightarrow> real \<Rightarrow> real \<Rightarrow> real \<Rightarrow> real \<Rightarrow> real \<Rightarrow> real" where
  "spec_d2 S K T r sigma q = spec_d1 S K T r sigma q - sigma * sqrt T"

definition spec_term1 :: "real \<Rightarrow> real \<Rightarrow> real \<Rightarrow> real \<Rightarrow> real \<Rightarrow> real \<Rightarrow> real" where
  "spec_term1 S K T r sigma q =
     - S * exp (- q * T) * norm_pdf (spec_d1 S K T r sigma q) * sigma / (2 * sqrt T)"

definition spec_closed_forms :: "real \<Rightarrow> real \<Rightarrow> real \<Rightarrow> real \<Rightarrow> real \<Rightarrow> real \<Rightarrow> results" where
  "spec_closed_forms S K T r sigma q =
     \<lparr>call_price = S * exp (- q * T) * norm_cdf (spec_d1 S K T r sigma q)
                   - K * exp (- r * T) * norm_cdf (spec_d2 S K T r sigma q),
      put_price = K * exp (- r * T) * norm_cdf (- spec_d2 S K T r sigma q)
                  - S * exp (- q * T) * norm_cdf (- spec_d1 S K T r sigma q),
      call_delta = exp (- q * T) * norm_cdf (spec_d1 S K T r sigma q),
      put_delta = exp (- q * T) * (norm_cdf (spec_d1 S K T r sigma q) - 1),
      gamma = exp (- q * T) * norm_pdf (spec_d1 S K T r sigma q) / (S * sigma * sqrt T),
      vega = S * exp (- q * T) * sqrt T * norm_pdf (spec_d1 S K T r sigma q) / 100,
      call_theta = (spec_term1 S K T r sigma q
                    - r * K * exp (- r * T) * norm_cdf (spec_d2 S K T r sigma q)
                    + q * S * exp (- q * T) * norm_cdf (spec_d1 S K T r sigma q)) / 365,
      put_theta = (spec_term1 S K T r sigma q
                   + r * K * exp (- r * T) * norm_cdf (- spec_d2 S K T r sigma q)
                   - q * S * exp (- q * T) * norm_cdf (- spec_d1 S K T r sigma q)) / 365,
      call_rho = K * T * exp (- r * T) * norm_cdf (spec_d2 S K T r sigma q) / 100,
      put_rho = - K * T * exp (- r * T) * norm_cdf (- spec_d2 S K T r sigma q) / 100\<rparr>"

subsection \<open>Example inputs\<close>

text \<open>
  The reference contract of the module's self-check (spot 100, strike 100, 365 days,
  rate 5, volatility 20, yield 0), variations of it, and a sweep of the spot price
  over three points for five volatility levels.
\<close>

definition example_inputs :: inputs where
  "example_inputs = \<lparr>inp_S = 100, inp_sigma = 20, inp_r = 5, inp_q = 0, inp_K = 100, inp_T = 365\<rparr>"

definition example_sweep :: params where
  "example_sweep = \<lparr>y_var = ''Call Price'', x_var = ''Spot Price'', x_start = 50, x_end = 150,
     x_steps = 3, z_var = ''Volatility'', z_start = 10, z_inc = 5\<rparr>"

section \<open>Properties of the pricing engine\<close>

subsection \<open>The normal distribution function\<close>

lemma cdf_term_bound: "\<bar>cdf_term x k\<bar> \<le> \<bar>x\<bar> * ((x\<^sup>2 / 2) ^ k / fact k)"
proof -
  have "\<bar>cdf_term x k\<bar> = \<bar>x\<bar> * ((x\<^sup>2 / 2) ^ k / fact k) / real (2 * k + 1)"
    by (simp add: cdf_term_def abs_mult power_abs power_mult power_divide)
  also have "\<dots> \<le> \<bar>x\<bar> * ((x\<^sup>2 / 2) ^ k / fact k) / 1"
    by (intro divide_left_mono) (auto intro!: mult_nonneg_nonneg divide_nonneg_nonneg)
  finally show ?thesis by simp
qed

lemma summable_cdf_term: "summable (cdf_term x)"
proof (rule summable_comparison_test')
  show "summable (\<lambda>k. \<bar>x\<bar> * ((x\<^sup>2 / 2) ^ k / fact k))"
    using summable_exp[of "x\<^sup>2 / 2"] by (intro summable_mult) (simp add: field_simps)
  show "\<And>n. n \<ge> 0 \<Longrightarrow> norm (cdf_term x n) \<le> \<bar>x\<bar> * ((x\<^sup>2 / 2) ^ n / fact n)"
    using cdf_term_bound by simp
qed

lemma cdf_term_neg: "cdf_term (- x) k = - cdf_term x k"
  by (simp add: cdf_term_def)

lemma norm_cdf_neg: "norm_cdf (- x) = 1 - norm_cdf x"
proof -
  have "(\<Sum>k. cdf_term (- x) k) = - (\<Sum>k. cdf_term x k)"
    by (simp add: cdf_term_neg suminf_minus summable_cdf_term)
  then show ?thesis by (simp add: norm_cdf_def field_simps)
qed

lemma norm_cdf_0: "norm_cdf 0 = 1 / 2"
  using norm_cdf_neg[of 0] by simp

lemma norm_pdf_pos: "0 < norm_pdf x"
  by (simp add: norm_pdf_def)

text \<open>
  The series is the distribution function: it takes the value \<open>1/2\<close> at 0 and its
  derivative is the density.
\<close>

lemma cdf_term_coeff: "cdf_term x k = x * (cdf_coeff k * (x\<^sup>2) ^ k)"
  by (simp add: cdf_term_def cdf_coeff_def power_mult)

lemma summable_cdf_coeff: "summable (\<lambda>k. cdf_coeff k * y ^ k)"
proof (rule summable_comparison_test')
  show "summable (\<lambda>k. (\<bar>y\<bar> / 2) ^ k / fact k)"
    using summable_exp[of "\<bar>y\<bar> / 2"] by (simp add: field_simps)
  show "norm (cdf_coeff k * y ^ k) \<le> (\<bar>y\<bar> / 2) ^ k / fact k" if "k \<ge> 0" for k
  proof -
    have "norm (cdf_coeff k * y ^ k) = (\<bar>y\<bar> / 2) ^ k / fact k / real (2 * k + 1)"
      by (simp add: cdf_coeff_def abs_mult power_abs power_divide)
    also have "\<dots> \<le> (\<bar>y\<bar> / 2) ^ k / fact k / 1"
      by (intro divide_left_mono) (auto intro!: divide_nonneg_nonneg)
    finally show ?thesis by simp
  qed
qed

lemma cdf_series_deriv:
  "(\<Sum>k. cdf_coeff k * y ^ k) + 2 * y * (\<Sum>k. diffs cdf_coeff k * y ^ k) = exp (- y / 2)"
proof -
  let ?f = "\<lambda>k. 2 * real k * cdf_coeff k * y ^ k"
  have sd: "summable (\<lambda>k. diffs cdf_coeff k * y ^ k)"
    by (rule termdiff_converges_all) (rule summable_cdf_coeff)
  have shift: "(\<lambda>k. ?f (Suc k)) = (\<lambda>k. 2 * y * (diffs cdf_coeff k * y ^ k))"
    by (rule ext) (simp add: diffs_def)
  have sS: "summable (\<lambda>k. ?f (Suc k))"
    unfolding shift by (rule summable_mult[OF sd])
  have sf: "summable ?f"
    using sS summable_Suc_iff[of ?f] by blast
  have "2 * y * (\<Sum>k. diffs cdf_coeff k * y ^ k) = (\<Sum>k. ?f (Suc k))"
    unfolding shift by (rule suminf_mult[OF sd, symmetric])
  also have "\<dots> = suminf ?f - ?f 0"
    by (rule suminf_split_head[OF sf])
  finally have "2 * y * (\<Sum>k. diffs cdf_coeff k * y ^ k) = suminf ?f" by simp
  then have "(\<Sum>k. cdf_coeff k * y ^ k) + 2 * y * (\<Sum>k. diffs cdf_coeff k * y ^ k)
      = (\<Sum>k. cdf_coeff k * y ^ k + ?f k)"
    by (simp add: suminf_add[OF summable_cdf_coeff sf])
  also have "(\<lambda>k. cdf_coeff k * y ^ k + ?f k) = (\<lambda>k. (- y / 2) ^ k /\<^sub>R fact k)"
  proof (rule ext)
    fix k
    have "cdf_coeff k * y ^ k + ?f k = (2 * real k + 1) * cdf_coeff k * y ^ k"
      by (simp add: algebra_simps)
    also have "(2 * real k + 1) * cdf_coeff k = (- 1) ^ k / (2 ^ k * fact k)"
    proof -
      have cancel: "d * (a / (b * d)) = a / b" if "d \<noteq> 0" for a b d :: real
        using that by simp
      have nz: "2 * real k + 1 \<noteq> 0"
        using of_nat_0_le_iff[of k, where 'a = real] by linarith
      have "cdf_coeff k = (- 1) ^ k / ((2 ^ k * fact k) * (2 * real k + 1))"
        by (simp add: cdf_coeff_def add.commute)
      then show ?thesis
        by (simp only: cancel[OF nz])
    qed
    also have "(- 1) ^ k / (2 ^ k * fact k) * y ^ k = (- y / 2) ^ k /\<^sub>R fact k"
    proof -
      have "(- y / 2) ^ k = ((- 1) * (y / 2)) ^ k" by simp
      also have "\<dots> = (- 1) ^ k * (y / 2) ^ k" by (rule power_mult_distrib)
      also have "(y / 2) ^ k = y ^ k / 2 ^ k" by (rule power_divide)
      finally have e: "(- y / 2) ^ k = (- 1) ^ k * (y ^ k / 2 ^ k)" .
      show ?thesis
        unfolding e by (simp add: field_simps)
    qed
    finally show "cdf_coeff k * y ^ k + ?f k = (- y / 2) ^ k /\<^sub>R fact k" .
  qed
  finally show ?thesis by (simp add: exp_def)
qed

lemma DERIV_norm_cdf: "(norm_cdf has_field_derivative norm_pdf x) (at x)"
proof -
  let ?h = "\<lambda>y. \<Sum>k. cdf_coeff k * y ^ k"
  let ?h' = "\<lambda>y. \<Sum>k. diffs cdf_coeff k * y ^ k"
  have h: "(?h has_field_derivative ?h' y) (at y)" for y
    by (rule termdiffs_strong_converges_everywhere) (rule summable_cdf_coeff)
  have eq: "norm_cdf = (\<lambda>x. 1 / 2 + x * ?h (x\<^sup>2) / sqrt (2 * pi))"
    by (rule ext) (simp add: norm_cdf_def cdf_term_coeff suminf_mult[OF summable_cdf_coeff])
  have d1: "((\<lambda>x. x\<^sup>2) has_field_derivative 2 * x) (at x)"
    by (auto intro!: derivative_eq_intros)
  have d2: "((\<lambda>x. ?h (x\<^sup>2)) has_field_derivative ?h' (x\<^sup>2) * (2 * x)) (at x)"
    by (rule DERIV_chain2[OF h d1])
  have d3: "((\<lambda>x. x * ?h (x\<^sup>2)) has_field_derivative
               1 * ?h (x\<^sup>2) + ?h' (x\<^sup>2) * (2 * x) * x) (at x)"
    by (rule DERIV_mult[OF DERIV_ident d2])
  have d4: "((\<lambda>x. 1 / 2 + x * ?h (x\<^sup>2) / sqrt (2 * pi)) has_field_derivative
               0 + (1 * ?h (x\<^sup>2) + ?h' (x\<^sup>2) * (2 * x) * x) / sqrt (2 * pi)) (at x)"
    by (rule DERIV_add[OF DERIV_const DERIV_cdivide[OF d3]])
  have e: "0 + (1 * ?h (x\<^sup>2) + ?h' (x\<^sup>2) * (2 * x) * x) / sqrt (2 * pi)
        = (?h (x\<^sup>2) + 2 * x\<^sup>2 * ?h' (x\<^sup>2)) / sqrt (2 * pi)"
    by (simp add: power2_eq_square)
  from d4[unfolded e] have "((\<lambda>x. 1 / 2 + x * ?h (x\<^sup>2) / sqrt (2 * pi)) has_field_derivative
          (?h (x\<^sup>2) + 2 * x\<^sup>2 * ?h' (x\<^sup>2)) / sqrt (2 * pi)) (at x)" .
  then show ?thesis
    by (simp add: eq cdf_series_deriv norm_pdf_def)
qed

subsection \<open>The general branch computes the closed forms\<close>

lemma d1_d2_general:
  assumes "1 / 10 ^ 9 < self_T self" and "1 / 10 ^ 9 < self_sigma self" and "self_K self \<noteq> 0"
  shows "d1_d2 self =
     Inr (Some (spec_d1 (self_S self) (self_K self) (self_T self) (self_r self)
                  (self_sigma self) (self_q self),
                spec_d2 (self_S self) (self_K self) (self_T self) (self_r self)
                  (self_sigma self) (self_q self)))"
  using assms by (simp add: d1_d2_def spec_d1_def spec_d2_def Let_def)

lemma general_case_spec:
  "general_case self
     (spec_d1 (self_S self) (self_K self) (self_T self) (self_r self) (self_sigma self) (self_q self))
     (spec_d2 (self_S self) (self_K self) (self_T self) (self_r self) (self_sigma self) (self_q self))
   = spec_closed_forms (self_S self) (self_K self) (self_T self) (self_r self)
       (self_sigma self) (self_q self)"
  by (simp add: general_case_def spec_closed_forms_def spec_term1_def Let_def)

lemma calculate_all_general:
  assumes "1 / 10 ^ 9 < self_T self" and "1 / 10 ^ 9 < self_sigma self" and "self_K self \<noteq> 0"
  shows "calculate_all self =
     Inr (spec_closed_forms (self_S self) (self_K self) (self_T self) (self_r self)
            (self_sigma self) (self_q self))"
  using assms by (simp add: calculate_all_def d1_d2_general general_case_spec)

lemma evaluate_general:
  assumes "inp_K inp \<noteq> 0"
    and "inp_T inp / 365 > 0.000000001" and "inp_sigma inp / 100 > 0.000000001"
  shows "evaluate inp =
     Inr (spec_closed_forms (inp_S inp) (inp_K inp) (inp_T inp / 365) (inp_r inp / 100)
            (inp_sigma inp / 100) (inp_q inp / 100))"
  using assms
    calculate_all_general[of "BlackScholes_init (inp_S inp) (inp_K inp) (inp_T inp)
                                (inp_r inp) (inp_sigma inp) (inp_q inp)"]
  by (simp add: evaluate_def BlackScholes_init_def)

text \<open>
  Claim C1. For a positive spot and strike, a time to expiry above the threshold
  (\<open>days / 365 > 1e-9\<close>) and a volatility above the threshold (\<open>pct / 100 > 1e-9\<close>), the
  evaluation returns the ten fields given by the closed forms of the specification:
  \<open>d1\<close>, \<open>d2\<close>, both prices, both deltas, gamma, vega per percentage point, the
  annual thetas divided by 365 and the annual rhos divided by 100.
\<close>

theorem evaluate_general_case:
  assumes "0 < inp_S inp" and "0 < inp_K inp"
    and "inp_T inp / 365 > 0.000000001" and "inp_sigma inp / 100 > 0.000000001"
  shows "evaluate inp =
     Inr (spec_closed_forms (inp_S inp) (inp_K inp) (inp_T inp / 365) (inp_r inp / 100)
            (inp_sigma inp / 100) (inp_q inp / 100))"
  using assms by (simp add: evaluate_general)

theorem evaluate_general_case_witness:
  "0 < inp_S example_inputs \<and> 0 < inp_K example_inputs
   \<and> inp_T example_inputs / 365 > 0.000000001 \<and> inp_sigma example_inputs / 100 > 0.000000001
   \<and> evaluate example_inputs = Inr (spec_closed_forms 100 100 1 (5 / 100) (20 / 100) 0)"
  using evaluate_general_case[of example_inputs] by (simp add: example_inputs_def)

subsection \<open>The degenerate branches\<close>

text \<open>
  Claim C2. When \<open>days / 365 \<le> 1e-9\<close> the evaluation returns the intrinsic values
  \<open>max 0 (S - K)\<close> and \<open>max 0 (K - S)\<close>; the deltas are 1 and 0 when \<open>S > K\<close>, 0 and -1
  when \<open>S < K\<close>, and both 0 when \<open>S = K\<close>; gamma, vega, both thetas and both rhos
  are 0.
\<close>

theorem evaluate_expiry:
  assumes "inp_T inp / 365 \<le> 0.000000001"
  shows "evaluate inp =
     Inr \<lparr>call_price = max 0 (inp_S inp - inp_K inp),
          put_price = max 0 (inp_K inp - inp_S inp),
          call_delta = (if inp_S inp > inp_K inp then 1 else 0),
          put_delta = (if inp_S inp < inp_K inp then - 1 else 0),
          gamma = 0, vega = 0, call_theta = 0, put_theta = 0, call_rho = 0, put_rho = 0\<rparr>"
  using assms
  by (simp add: evaluate_def calculate_all_def BlackScholes_init_def results0_def Let_def)

theorem evaluate_expiry_witness:
  "inp_T (example_inputs\<lparr>inp_S := 110, inp_T := 0\<rparr>) / 365 \<le> 0.000000001
   \<and> evaluate (example_inputs\<lparr>inp_S := 110, inp_T := 0\<rparr>) =
       Inr \<lparr>call_price = 10, put_price = 0, call_delta = 1, put_delta = 0,
            gamma = 0, vega = 0, call_theta = 0, put_theta = 0, call_rho = 0, put_rho = 0\<rparr>"
  using evaluate_expiry[of "example_inputs\<lparr>inp_S := 110, inp_T := 0\<rparr>"]
  by (simp add: example_inputs_def)

text \<open>
  Claim C3. When \<open>days / 365 > 1e-9\<close> but \<open>pct / 100 \<le> 1e-9\<close> the evaluation returns the
  intrinsic values as prices and leaves every other field at 0.
\<close>

theorem evaluate_zero_volatility:
  assumes "inp_T inp / 365 > 0.000000001" and "inp_sigma inp / 100 \<le> 0.000000001"
  shows "evaluate inp =
     Inr \<lparr>call_price = max 0 (inp_S inp - inp_K inp),
          put_price = max 0 (inp_K inp - inp_S inp),
          call_delta = 0, put_delta = 0,
          gamma = 0, vega = 0, call_theta = 0, put_theta = 0, call_rho = 0, put_rho = 0\<rparr>"
  using assms
  by (simp add: evaluate_def calculate_all_def d1_d2_def BlackScholes_init_def results0_def Let_def)

theorem evaluate_zero_volatility_witness:
  "inp_T (example_inputs\<lparr>inp_S := 90, inp_sigma := 0\<rparr>) / 365 > 0.000000001
   \<and> inp_sigma (example_inputs\<lparr>inp_S := 90, inp_sigma := 0\<rparr>) / 100 \<le> 0.000000001
   \<and> evaluate (example_inputs\<lparr>inp_S := 90, inp_sigma := 0\<rparr>) =
       Inr \<lparr>call_price = 0, put_price = 10, call_delta = 0, put_delta = 0,
            gamma = 0, vega = 0, call_theta = 0, put_theta = 0, call_rho = 0, put_rho = 0\<rparr>"
  using evaluate_zero_volatility[of "example_inputs\<lparr>inp_S := 90, inp_sigma := 0\<rparr>"]
  by (simp add: example_inputs_def)

subsection \<open>Put-call parity and the sign of gamma and vega\<close>

lemma spec_parity:
  "call_price (spec_closed_forms S K T r sigma q) - put_price (spec_closed_forms S K T r sigma q)
   = S * exp (- q * T) - K * exp (- r * T)"
  by (simp add: spec_closed_forms_def norm_cdf_neg algebra_simps)

text \<open>
  Claim C4. For a positive spot and strike and time and volatility above their
  thresholds, the returned prices satisfy
  \<open>call_price - put_price = S * exp (- q T) - K * exp (- r T)\<close>, hence also within the
  tolerance \<open>1e-6\<close>.
\<close>

theorem put_call_parity:
  assumes "0 < inp_S inp" and "0 < inp_K inp"
    and "inp_T inp / 365 > 0.000000001" and "inp_sigma inp / 100 > 0.000000001"
  shows "\<exists>res. evaluate inp = Inr res
     \<and> call_price res - put_price res
       = inp_S inp * exp (- (inp_q inp / 100) * (inp_T inp / 365))
         - inp_K inp * exp (- (inp_r inp / 100) * (inp_T inp / 365))
     \<and> \<bar>(call_price res - put_price res)
         - (inp_S inp * exp (- (inp_q inp / 100) * (inp_T inp / 365))
            - inp_K inp * exp (- (inp_r inp / 100) * (inp_T inp / 365)))\<bar> \<le> 0.000001"
  using assms by (simp add: evaluate_general spec_parity)

theorem put_call_parity_witness:
  "0 < inp_S example_inputs \<and> 0 < inp_K example_inputs
   \<and> inp_T example_inputs / 365 > 0.000000001 \<and> inp_sigma example_inputs / 100 > 0.000000001
   \<and> (\<exists>res. evaluate example_inputs = Inr res
        \<and> call_price res - put_price res = 100 - 100 * exp (- (5 / 100)))"
proof -
  have h: "0 < inp_S example_inputs" "0 < inp_K example_inputs"
    "inp_T example_inputs / 365 > 0.000000001" "inp_sigma example_inputs / 100 > 0.000000001"
    by (simp_all add: example_inputs_def)
  from put_call_parity[OF h] obtain res where
    "evaluate example_inputs = Inr res"
    "call_price res - put_price res
       = inp_S example_inputs * exp (- (inp_q example_inputs / 100) * (inp_T example_inputs / 365))
         - inp_K example_inputs * exp (- (inp_r example_inputs / 100) * (inp_T example_inputs / 365))"
    by blast
  then have "\<exists>res. evaluate example_inputs = Inr res
        \<and> call_price res - put_price res = 100 - 100 * exp (- (5 / 100))"
    by (simp add: example_inputs_def)
  with h show ?thesis by blast
qed

lemma spec_gamma_nonneg:
  assumes "0 < S" and "0 < T" and "0 < sigma"
  shows "0 \<le> gamma (spec_closed_forms S K T r sigma q)"
  using assms norm_pdf_pos[of "spec_d1 S K T r sigma q"]
  by (simp add: spec_closed_forms_def less_imp_le)

lemma spec_vega_nonneg:
  assumes "0 < S" and "0 < T"
  shows "0 \<le> vega (spec_closed_forms S K T r sigma q)"
  using assms norm_pdf_pos[of "spec_d1 S K T r sigma q"]
  by (simp add: spec_closed_forms_def less_imp_le)

text \<open>
  Claim C5. For a positive spot and strike the evaluation returns a result with
  \<open>gamma \<ge> 0\<close> and \<open>vega \<ge> 0\<close>, whichever branch is taken.
\<close>

theorem gamma_vega_nonneg:
  assumes "0 < inp_S inp" and "0 < inp_K inp"
  shows "\<exists>res. evaluate inp = Inr res \<and> 0 \<le> gamma res \<and> 0 \<le> vega res"
proof (cases "inp_T inp / 365 \<le> 0.000000001")
  case True
  then show ?thesis
    by (simp add: evaluate_def calculate_all_def BlackScholes_init_def results0_def Let_def)
next
  case later: False
  show ?thesis
  proof (cases "inp_sigma inp / 100 \<le> 0.000000001")
    case True
    with later show ?thesis
      by (simp add: evaluate_def calculate_all_def d1_d2_def BlackScholes_init_def
          results0_def Let_def)
  next
    case False
    from later False have "0 < inp_T inp / 365" and "0 < inp_sigma inp / 100"
      by simp_all
    with assms later False show ?thesis
      by (simp add: evaluate_general spec_gamma_nonneg spec_vega_nonneg)
  qed
qed

theorem gamma_vega_nonneg_witness:
  "0 < inp_S example_inputs \<and> 0 < inp_K example_inputs
   \<and> (\<exists>res. evaluate example_inputs = Inr res \<and> 0 \<le> gamma res \<and> 0 \<le> vega res)"
  using gamma_vega_nonneg[of example_inputs] by (simp add: example_inputs_def)

section \<open>Properties of the sweep\<close>

subsection \<open>Overriding entries\<close>

lemma set_item_fields:
  "inp_S (set_item b key v) = (if key = Some ''S'' then v else inp_S b)"
  "inp_sigma (set_item b key v) = (if key = Some ''sigma'' then v else inp_sigma b)"
  "inp_r (set_item b key v) = (if key = Some ''r'' then v else inp_r b)"
  "inp_q (set_item b key v) = (if key = Some ''q'' then v else inp_q b)"
  "inp_K (set_item b key v) = (if key = Some ''K'' then v else inp_K b)"
  "inp_T (set_item b key v) = (if key = Some ''T'' then v else inp_T b)"
  by (auto simp add: set_item_def)


lemma var_map_not_K: "var_map label \<noteq> Some ''K''"
  by (simp add: var_map_def)

lemma evaluate_Inr: "inp_K inp \<noteq> 0 \<Longrightarrow> \<exists>res. evaluate inp = Inr res"
  by (simp add: evaluate_def calculate_all_def d1_d2_def BlackScholes_init_def Let_def)

lemma evaluate_override_Inr:
  assumes "inp_K base \<noteq> 0"
  shows "\<exists>res. evaluate (set_item (set_item base (var_map xl) x) (var_map zl) z) = Inr res"
  using assms by (intro evaluate_Inr) (simp add: set_item_fields var_map_not_K)

subsection \<open>The two loops\<close>

lemma row_loop_Inr:
  assumes "\<forall>x\<in>set xs. evaluate (set_item (set_item b xn x) zn z) = Inr (f x)"
  shows "row_loop b xn zn yk z xs row n
         = (Inr (row @ map (\<lambda>x. res_get (f x) yk 0) xs), n + length xs)"
  using assms by (induction xs arbitrary: row n) simp_all

lemma simulation_loop_Inr:
  assumes "\<forall>z\<in>set zs. \<forall>x\<in>set xs. evaluate (set_item (set_item b xn x) zn z) = Inr (f z x)"
  shows "simulation_loop b xn zn yk xs zs ym n
         = (Inr (ym @ map (\<lambda>z. map (\<lambda>x. res_get (f z x) yk 0) xs) zs), n + length zs * length xs)"
  using assms
proof (induction zs arbitrary: ym n)
  case Nil
  then show ?case by simp
next
  case (Cons z zs)
  have row: "row_loop b xn zn yk z xs [] n = (Inr ([] @ map (\<lambda>x. res_get (f z x) yk 0) xs), n + length xs)"
    by (rule row_loop_Inr) (use Cons.prems in simp)
  have rest: "\<forall>z\<in>set zs. \<forall>x\<in>set xs. evaluate (set_item (set_item b xn x) zn z) = Inr (f z x)"
    using Cons.prems by simp
  show ?case
    by (simp add: row Cons.IH[OF rest] add.assoc)
qed

subsection \<open>The coordinate vectors\<close>

lemma length_linspace: "length (linspace a b n) = n"
  by (simp add: linspace_def Let_def)




subsection \<open>The sweep against direct pricing calls\<close>

lemma run_analysis_sweep:
  assumes dist: "var_map (x_var p) \<noteq> var_map (z_var p)" and steps: "1 < x_steps p"
    and K: "inp_K base \<noteq> 0"
  defines "xs \<equiv> linspace (x_start p) (x_end p) (nat (x_steps p))"
  defines "zs \<equiv> map (\<lambda>i. z_start p + real i * z_inc p) [0..<5]"
  defines "f \<equiv> \<lambda>z x. projr (evaluate (set_item (set_item base (var_map (x_var p)) x) (var_map (z_var p)) z))"
  shows "run_analysis base p =
    (Inr (xs, zs, map (\<lambda>z. map (\<lambda>x. res_get (f z x) (metric_map (y_var p)) 0) xs) zs),
     5 * nat (x_steps p))"
proof -
  have ev: "evaluate (set_item (set_item base (var_map (x_var p)) x) (var_map (z_var p)) z) = Inr (f z x)" for z x
    using evaluate_override_Inr[OF K, of "x_var p" x "z_var p" z] unfolding f_def by auto
  have loop: "simulation_loop base (var_map (x_var p)) (var_map (z_var p)) (metric_map (y_var p)) xs zs [] 0
      = (Inr ([] @ map (\<lambda>z. map (\<lambda>x. res_get (f z x) (metric_map (y_var p)) 0) xs) zs), 0 + length zs * length xs)"
    by (rule simulation_loop_Inr) (simp add: ev)
  have len: "length zs * length xs = 5 * nat (x_steps p)"
    by (simp add: zs_def xs_def length_linspace)
  show ?thesis
    using dist steps loop len
    by (simp add: run_analysis_def get_analysis_inputs_def Let_def xs_def[symmetric] zs_def[symmetric])
qed




subsection \<open>Rejected sweeps\<close>

text \<open>
  Claim C7, amended. When the two variables map to the same input key and the step
  count is above 1, \<^verbatim>\<open>run_analysis\<close> reports the configuration error and performs no
  pricing evaluation.
\<close>

theorem run_analysis_same_variable:
  assumes "var_map (x_var p) = var_map (z_var p)" and "1 < x_steps p"
  shows "run_analysis base p = (Inl ConfigurationError, 0)"
  using assms by (simp add: run_analysis_def get_analysis_inputs_def Let_def)

theorem run_analysis_same_variable_witness:
  "var_map (x_var (example_sweep\<lparr>x_var := ''Volatility''\<rparr>))
     = var_map (z_var (example_sweep\<lparr>x_var := ''Volatility''\<rparr>))
   \<and> 1 < x_steps (example_sweep\<lparr>x_var := ''Volatility''\<rparr>)
   \<and> run_analysis example_inputs (example_sweep\<lparr>x_var := ''Volatility''\<rparr>)
       = (Inl ConfigurationError, 0)"
  using run_analysis_same_variable[of "example_sweep\<lparr>x_var := ''Volatility''\<rparr>" example_inputs]
  by (simp add: example_sweep_def)

text \<open>
  Claim C7 as stated fails: with the same variable on both axes and a step count
  of 1, the step-count check of \<^verbatim>\<open>get_analysis_inputs\<close> runs first and the outcome is
  the range error, not the configuration error.
\<close>

theorem run_analysis_same_variable_one_step:
  "x_var (example_sweep\<lparr>x_var := ''Volatility'', x_steps := 1\<rparr>)
     = z_var (example_sweep\<lparr>x_var := ''Volatility'', x_steps := 1\<rparr>)
   \<and> run_analysis example_inputs (example_sweep\<lparr>x_var := ''Volatility'', x_steps := 1\<rparr>)
       = (Inl InvalidRangeError, 0)
   \<and> fst (run_analysis example_inputs (example_sweep\<lparr>x_var := ''Volatility'', x_steps := 1\<rparr>))
       \<noteq> Inl ConfigurationError"
  by (simp add: run_analysis_def get_analysis_inputs_def example_sweep_def)

text \<open>
  Claim C8. With a step count of at most 1, \<^verbatim>\<open>run_analysis\<close> reports the range error
  and performs no pricing evaluation, whatever the other settings are.
\<close>

theorem run_analysis_step_count:
  assumes "x_steps p \<le> 1"
  shows "run_analysis base p = (Inl InvalidRangeError, 0)"
  using assms by (simp add: run_analysis_def get_analysis_inputs_def)

theorem run_analysis_step_count_witness:
  "x_steps (example_sweep\<lparr>x_steps := 1\<rparr>) \<le> 1
   \<and> run_analysis example_inputs (example_sweep\<lparr>x_steps := 1\<rparr>) = (Inl InvalidRangeError, 0)"
  using run_analysis_step_count[of "example_sweep\<lparr>x_steps := 1\<rparr>" example_inputs]
  by (simp add: example_sweep_def)

subsection \<open>Extracting the target metric\<close>

lemma row_loop_default:
  assumes "\<forall>res. res_get res yk 0 = 0"
    and "row_loop b xn zn yk z xs row n = (Inr row', n')"
  shows "row' = row @ replicate (length xs) 0"
  using assms(2)
proof (induction xs arbitrary: row n)
  case Nil
  then show ?case by simp
next
  case (Cons x xs)
  from Cons.prems have "row_loop b xn zn yk z xs (row @ [0]) (n + 1) = (Inr row', n')"
    by (auto simp add: assms(1) split: sum.splits)
  then have "row' = (row @ [0]) @ replicate (length xs) 0"
    by (rule Cons.IH)
  then show ?case by simp
qed

lemma simulation_loop_default:
  assumes "\<forall>res. res_get res yk 0 = 0"
    and "simulation_loop b xn zn yk xs zs ym n = (Inr ym', n')"
  shows "ym' = ym @ replicate (length zs) (replicate (length xs) 0)"
  using assms(2)
proof (induction zs arbitrary: ym n)
  case Nil
  then show ?case by simp
next
  case (Cons z zs)
  obtain r m where rl: "row_loop b xn zn yk z xs [] n = (r, m)"
    by (cases "row_loop b xn zn yk z xs [] n")
  show ?case
  proof (cases r)
    case (Inl e)
    with Cons.prems rl show ?thesis by simp
  next
    case (Inr row)
    with rl have "row = [] @ replicate (length xs) 0"
      using row_loop_default[OF assms(1)] by blast
    with Cons.prems rl Inr Cons.IH[of "ym @ [row]" m] show ?thesis
      by (simp add: replicate_app_Cons_same)
  qed
qed

lemma res_get_None: "res_get res None dflt = dflt"
  by (simp add: res_get_def)

lemma run_analysis_default:
  assumes "metric_map (y_var p) = None"
    and "fst (run_analysis base p) = Inr (x_values, z_values, y_matrix)"
  shows "y_matrix = replicate 5 (replicate (nat (x_steps p)) 0)"
proof -
  let ?xs = "linspace (x_start p) (x_end p) (nat (x_steps p))"
  let ?zs = "map (\<lambda>i. z_start p + real i * z_inc p) [0..<5]"
  obtain r m where sl: "simulation_loop base (var_map (x_var p)) (var_map (z_var p)) None ?xs ?zs [] 0 = (r, m)"
    by (cases "simulation_loop base (var_map (x_var p)) (var_map (z_var p)) None ?xs ?zs [] 0")
  from assms sl have r: "r = Inr y_matrix"
    by (cases r) (auto simp add: run_analysis_def get_analysis_inputs_def Let_def split: if_splits)
  have "y_matrix = [] @ replicate (length ?zs) (replicate (length ?xs) 0)"
    by (rule simulation_loop_default[OF _ sl[unfolded r]]) (simp add: res_get_None)
  then show ?thesis by (simp add: linspace_def Let_def)
qed

text \<open>
  Claim C9. Extracting the target metric has no failing case. The labels "Theta" and
  "Rho" resolve to the keys \<^verbatim>\<open>call_theta\<close> and \<^verbatim>\<open>call_rho\<close> and yield the call-side
  fields. A label outside the eight known ones has no key, and the extraction
  yields 0; so does any key that is not one of the ten result keys. In a sweep
  that completes with an unrecognised label, every cell of the matrix is 0.
\<close>

theorem metric_extraction_total:
  "metric_map ''Theta'' = Some ''call_theta'' \<and> metric_map ''Rho'' = Some ''call_rho''
   \<and> res_get res (metric_map ''Theta'') 0 = call_theta res
   \<and> res_get res (metric_map ''Rho'') 0 = call_rho res
   \<and> (label \<notin> set [''Call Price'', ''Put Price'', ''Call Delta'', ''Put Delta'', ''Gamma'',
                     ''Vega'', ''Theta'', ''Rho'']
        \<longrightarrow> metric_map label = None \<and> res_get res (metric_map label) 0 = 0)
   \<and> (key \<notin> Some ` set [''call_price'', ''put_price'', ''call_delta'', ''put_delta'', ''gamma'',
                          ''vega'', ''call_theta'', ''put_theta'', ''call_rho'', ''put_rho'']
        \<longrightarrow> res_get res key 0 = 0)
   \<and> (metric_map (y_var p) = None
        \<and> fst (run_analysis base p) = Inr (x_values, z_values, y_matrix)
        \<longrightarrow> y_matrix = replicate 5 (replicate (nat (x_steps p)) 0))"
proof (intro conjI impI)
  show "metric_map ''Theta'' = Some ''call_theta''" by (simp add: metric_map_def)
  show "metric_map ''Rho'' = Some ''call_rho''" by (simp add: metric_map_def)
  show "res_get res (metric_map ''Theta'') 0 = call_theta res"
    by (simp add: metric_map_def res_get_def)
  show "res_get res (metric_map ''Rho'') 0 = call_rho res"
    by (simp add: metric_map_def res_get_def)
next
  assume "label \<notin> set [''Call Price'', ''Put Price'', ''Call Delta'', ''Put Delta'', ''Gamma'',
                     ''Vega'', ''Theta'', ''Rho'']"
  then show m: "metric_map label = None" by (simp add: metric_map_def)
  then show "res_get res (metric_map label) 0 = 0" by (simp add: res_get_None)
next
  assume "key \<notin> Some ` set [''call_price'', ''put_price'', ''call_delta'', ''put_delta'', ''gamma'',
                          ''vega'', ''call_theta'', ''put_theta'', ''call_rho'', ''put_rho'']"
  then show "res_get res key 0 = 0" by (simp add: res_get_def)
next
  assume "metric_map (y_var p) = None
        \<and> fst (run_analysis base p) = Inr (x_values, z_values, y_matrix)"
  then show "y_matrix = replicate 5 (replicate (nat (x_steps p)) 0)"
    using run_analysis_default by blast
qed


theorem metric_extraction_total_witness:
  "''Put Theta'' \<notin> set [''Call Price'', ''Put Price'', ''Call Delta'', ''Put Delta'', ''Gamma'',
                     ''Vega'', ''Theta'', ''Rho'']
   \<and> None \<notin> Some ` set [''call_price'', ''put_price'', ''call_delta'', ''put_delta'', ''gamma'',
                          ''vega'', ''call_theta'', ''put_theta'', ''call_rho'', ''put_rho'']
   \<and> metric_map (y_var (example_sweep\<lparr>y_var := ''Put Theta''\<rparr>)) = None
   \<and> fst (run_analysis example_inputs (example_sweep\<lparr>y_var := ''Put Theta''\<rparr>))
       = Inr (linspace 50 150 3, map (\<lambda>i. 10 + real i * 5) [0..<5], replicate 5 (replicate 3 0))
   \<and> res_get results0 (metric_map ''Theta'') 0 = call_theta results0
   \<and> res_get results0 (metric_map ''Rho'') 0 = call_rho results0
   \<and> res_get results0 (metric_map ''Put Theta'') 0 = 0
   \<and> res_get results0 None 0 = 0"
proof -
  let ?p = "example_sweep\<lparr>y_var := ''Put Theta''\<rparr>"
  have h1: "''Put Theta'' \<notin> set [''Call Price'', ''Put Price'', ''Call Delta'', ''Put Delta'',
                     ''Gamma'', ''Vega'', ''Theta'', ''Rho'']"
    by simp
  have h2: "None \<notin> Some ` set [''call_price'', ''put_price'', ''call_delta'', ''put_delta'',
                     ''gamma'', ''vega'', ''call_theta'', ''put_theta'', ''call_rho'', ''put_rho'']"
    by simp
  have h3: "metric_map (y_var ?p) = None"
    by (simp add: metric_map_def)
  have "var_map (x_var ?p) \<noteq> var_map (z_var ?p)" and "1 < x_steps ?p"
    and "inp_K example_inputs \<noteq> 0"
    by (simp_all add: example_sweep_def example_inputs_def var_map_def)
  from run_analysis_sweep[OF this]
  have h4: "fst (run_analysis example_inputs ?p)
       = Inr (linspace 50 150 3, map (\<lambda>i. 10 + real i * 5) [0..<5], replicate 5 (replicate 3 0))"
    by (simp add: metric_map_def res_get_None example_sweep_def map_replicate_const
        length_linspace comp_def)
  note inst = metric_extraction_total[where res = results0 and label = "''Put Theta''"
      and key = None and p = ?p and base = example_inputs
      and x_values = "linspace 50 150 3" and z_values = "map (\<lambda>i. 10 + real i * 5) [0..<5]"
      and y_matrix = "replicate 5 (replicate 3 0)"]
  from inst h1 h2 h3 h4 show ?thesis by blast
qed

section \<open>Non-positive time or volatility\<close>

text \<open>
  Claim C10, amended. For a positive spot and strike and a non-positive number of
  days or a non-positive volatility, the evaluation returns the intrinsic values as
  prices and 0 for gamma, vega, both thetas and both rhos. The deltas are 0 as
  well, except in the expiry branch (\<open>days / 365 \<le> 1e-9\<close>), where the call delta is 1
  when \<open>S > K\<close> and the put delta is -1 when \<open>S < K\<close>. Neither \<^verbatim>\<open>np.log\<close> nor
  \<^verbatim>\<open>np.sqrt\<close> is evaluated. All returned values are among \<open>S - K\<close>, \<open>K - S\<close>, 0, 1
  and -1.
\<close>

theorem evaluate_nonpositive_time_or_volatility:
  assumes "0 < inp_S inp" and "0 < inp_K inp" and "inp_T inp \<le> 0 \<or> inp_sigma inp \<le> 0"
  shows "evaluate inp =
     Inr \<lparr>call_price = max 0 (inp_S inp - inp_K inp),
          put_price = max 0 (inp_K inp - inp_S inp),
          call_delta = (if inp_T inp / 365 \<le> 0.000000001 \<and> inp_S inp > inp_K inp then 1 else 0),
          put_delta = (if inp_T inp / 365 \<le> 0.000000001 \<and> inp_S inp < inp_K inp then - 1 else 0),
          gamma = 0, vega = 0, call_theta = 0, put_theta = 0, call_rho = 0, put_rho = 0\<rparr>
     \<and> log_sqrt_args (BlackScholes_init (inp_S inp) (inp_K inp) (inp_T inp)
                        (inp_r inp) (inp_sigma inp) (inp_q inp)) = []"
proof (cases "inp_T inp / 365 \<le> 0.000000001")
  case True
  then show ?thesis
    by (simp add: evaluate_def calculate_all_def log_sqrt_args_def BlackScholes_init_def
        results0_def Let_def)
next
  case False
  then have "0 < inp_T inp" by simp
  with assms(3) have "inp_sigma inp / 100 \<le> 0.000000001" by simp
  with False show ?thesis
    by (simp add: evaluate_def calculate_all_def d1_d2_def log_sqrt_args_def BlackScholes_init_def
        results0_def Let_def)
qed

theorem evaluate_nonpositive_time_or_volatility_witness:
  "0 < inp_S (example_inputs\<lparr>inp_S := 90, inp_T := - 10\<rparr>)
   \<and> 0 < inp_K (example_inputs\<lparr>inp_S := 90, inp_T := - 10\<rparr>)
   \<and> (inp_T (example_inputs\<lparr>inp_S := 90, inp_T := - 10\<rparr>) \<le> 0
        \<or> inp_sigma (example_inputs\<lparr>inp_S := 90, inp_T := - 10\<rparr>) \<le> 0)
   \<and> evaluate (example_inputs\<lparr>inp_S := 90, inp_T := - 10\<rparr>) =
       Inr \<lparr>call_price = 0, put_price = 10, call_delta = 0, put_delta = - 1,
            gamma = 0, vega = 0, call_theta = 0, put_theta = 0, call_rho = 0, put_rho = 0\<rparr>
   \<and> log_sqrt_args (BlackScholes_init 90 100 (- 10) 5 20 0) = []"
  using evaluate_nonpositive_time_or_volatility[of "example_inputs\<lparr>inp_S := 90, inp_T := - 10\<rparr>"]
  by (simp add: example_inputs_def)

text \<open>
  Claim C10 as stated fails: with a negative number of days and \<open>S > K\<close> the call
  delta is 1, so the fields other than the prices are not all 0.
\<close>

theorem evaluate_negative_time_delta:
  "0 < inp_S (example_inputs\<lparr>inp_S := 110, inp_T := - 1\<rparr>)
   \<and> 0 < inp_K (example_inputs\<lparr>inp_S := 110, inp_T := - 1\<rparr>)
   \<and> inp_T (example_inputs\<lparr>inp_S := 110, inp_T := - 1\<rparr>) \<le> 0
   \<and> evaluate (example_inputs\<lparr>inp_S := 110, inp_T := - 1\<rparr>) =
       Inr \<lparr>call_price = 10, put_price = 0, call_delta = 1, put_delta = 0,
            gamma = 0, vega = 0, call_theta = 0, put_theta = 0, call_rho = 0, put_rho = 0\<rparr>
   \<and> evaluate (example_inputs\<lparr>inp_S := 110, inp_T := - 1\<rparr>) \<noteq>
       Inr \<lparr>call_price = 10, put_price = 0, call_delta = 0, put_delta = 0,
            gamma = 0, vega = 0, call_theta = 0, put_theta = 0, call_rho = 0, put_rho = 0\<rparr>"
  by (simp add: evaluate_def calculate_all_def BlackScholes_init_def results0_def Let_def
      example_inputs_def)

text \<open>
  Whatever the time and the volatility are, a positive spot and strike keep every
  argument of \<^verbatim>\<open>np.log\<close> and \<^verbatim>\<open>np.sqrt\<close> positive.
\<close>

lemma log_sqrt_args_positive:
  assumes "0 < self_S self" and "0 < self_K self"
  shows "\<forall>a \<in> set (log_sqrt_args self). 0 < a"
  using assms by (auto simp add: log_sqrt_args_def)

end
